theory Spec2Isabelle
  imports Main "HOL-Library.Log_Nat"
begin

section \<open>JavaScript values used by the library\<close>

subsection \<open>Numbers (IEEE 754 binary64)\<close>

text \<open>
  A JavaScript \<^verbatim>\<open>number\<close> is a binary64 value. A finite one is kept as the rational it
  denotes; \<open>round64\<close> below maps any rational to the nearest number (ties to even),
  so every arithmetic operation is the exact operation followed by \<open>round64\<close>.
  The two zeros are identified: the library never divides by zero and none of its
  comparisons, conversions or \<^verbatim>\<open>String(n)\<close> tells them apart.
\<close>

datatype double = Fin rat | PosInf | NegInf | NaN

definition pow2 :: "int \<Rightarrow> rat" where
  "pow2 e = (if 0 \<le> e then 2 ^ nat e else 1 / 2 ^ nat (- e))"

text \<open>\<open>ilog2 q\<close> is \<open>\<lfloor>log\<^sub>2 q\<rfloor>\<close> for a positive rational \<open>q\<close>.\<close>

definition ilog2 :: "rat \<Rightarrow> int" where
  "ilog2 q = (if 1 \<le> q then bitlen \<lfloor>q\<rfloor> - 1 else - bitlen (\<lceil>1 / q\<rceil> - 1))"

definition round_even :: "rat \<Rightarrow> int" where
  "round_even r =
     (let f = \<lfloor>r\<rfloor>; d = r - of_int f in
      if d < 1 / 2 then f
      else if 1 / 2 < d then f + 1
      else if even f then f else f + 1)"

text \<open>
  Round to nearest, ties to even, on the binary64 grid: 53 significant bits, least
  exponent \<open>-1022\<close> (below it the grid is the subnormal one, of step \<open>2\<^sup>-\<^sup>1\<^sup>0\<^sup>7\<^sup>4\<close>), overflow
  to infinity from \<open>2\<^sup>1\<^sup>0\<^sup>2\<^sup>4\<close> on.
\<close>

definition round64 :: "rat \<Rightarrow> double" where
  "round64 q =
     (if q = 0 then Fin 0
      else
        let e = max (ilog2 \<bar>q\<bar>) (- 1022);
            u = pow2 (e - 52);
            r = of_int (round_even (\<bar>q\<bar> / u)) * u
        in if pow2 1024 \<le> r then (if 0 < q then PosInf else NegInf)
           else Fin (sgn q * r))"


fun fmul :: "double \<Rightarrow> double \<Rightarrow> double" where
  "fmul (Fin a) (Fin b) = round64 (a * b)"
| "fmul NaN _ = NaN"
| "fmul _ NaN = NaN"
| "fmul (Fin a) PosInf = (if a = 0 then NaN else if 0 < a then PosInf else NegInf)"
| "fmul (Fin a) NegInf = (if a = 0 then NaN else if 0 < a then NegInf else PosInf)"
| "fmul PosInf (Fin b) = (if b = 0 then NaN else if 0 < b then PosInf else NegInf)"
| "fmul NegInf (Fin b) = (if b = 0 then NaN else if 0 < b then NegInf else PosInf)"
| "fmul PosInf PosInf = PosInf"
| "fmul PosInf NegInf = NegInf"
| "fmul NegInf PosInf = NegInf"
| "fmul NegInf NegInf = PosInf"

fun fdiv :: "double \<Rightarrow> double \<Rightarrow> double" where
  "fdiv (Fin a) (Fin b) =
     (if b = 0 then (if a = 0 then NaN else if 0 < a then PosInf else NegInf)
      else round64 (a / b))"
| "fdiv NaN _ = NaN"
| "fdiv _ NaN = NaN"
| "fdiv (Fin a) PosInf = Fin 0"
| "fdiv (Fin a) NegInf = Fin 0"
| "fdiv PosInf (Fin b) = (if 0 \<le> b then PosInf else NegInf)"
| "fdiv NegInf (Fin b) = (if 0 \<le> b then NegInf else PosInf)"
| "fdiv PosInf PosInf = NaN"
| "fdiv PosInf NegInf = NaN"
| "fdiv NegInf PosInf = NaN"
| "fdiv NegInf NegInf = NaN"

fun fadd :: "double \<Rightarrow> double \<Rightarrow> double" where
  "fadd (Fin a) (Fin b) = round64 (a + b)"
| "fadd NaN _ = NaN"
| "fadd _ NaN = NaN"
| "fadd (Fin a) PosInf = PosInf"
| "fadd (Fin a) NegInf = NegInf"
| "fadd PosInf (Fin b) = PosInf"
| "fadd NegInf (Fin b) = NegInf"
| "fadd PosInf PosInf = PosInf"
| "fadd PosInf NegInf = NaN"
| "fadd NegInf PosInf = NaN"
| "fadd NegInf NegInf = NegInf"

text \<open>
  \<^verbatim>\<open>10 ** p\<close> for a natural \<open>p\<close>: the number nearest to \<open>10\<^sup>p\<close>, which is \<open>10\<^sup>p\<close> itself up
  to \<open>p = 22\<close>. (The language standard leaves the accuracy of \<^verbatim>\<open>**\<close> to the platform.)
\<close>

definition pow10 :: "nat \<Rightarrow> double" where
  "pow10 p = round64 (10 ^ p)"

text \<open>\<^verbatim>\<open>Math.trunc\<close>: towards zero.\<close>

fun trunc :: "double \<Rightarrow> double" where
  "trunc (Fin a) = Fin (if 0 \<le> a then of_int \<lfloor>a\<rfloor> else of_int \<lceil>a\<rceil>)"
| "trunc d = d"

text \<open>\<^verbatim>\<open>Number.isFinite\<close> and \<^verbatim>\<open>Number.MAX_SAFE_INTEGER\<close>.\<close>

fun isFinite :: "double \<Rightarrow> bool" where
  "isFinite (Fin a) = True"
| "isFinite d = False"

definition MAX_SAFE_INTEGER :: double where
  "MAX_SAFE_INTEGER = Fin (2 ^ 53 - 1)"

subsection \<open>Numbers and BigInts together\<close>

text \<open>
  A value of type \<^verbatim>\<open>number | bigint\<close>; \<^verbatim>\<open>typeof x === "bigint"\<close> is the test for the
  constructor \<open>Big\<close>.
\<close>

datatype basevalue = Num double | Big int

fun isBig :: "basevalue \<Rightarrow> bool" where
  "isBig (Big i) = True"
| "isBig (Num d) = False"

text \<open>
  The library throws \<^verbatim>\<open>Error\<close> itself, in the parser; the built-in \<^verbatim>\<open>BigInt(x)\<close>
  throws \<^verbatim>\<open>RangeError\<close> when \<open>x\<close> is a number that is not an integer, and BigInt
  division throws it for a zero divisor.
\<close>

datatype error = FormatError | RangeError

definition bindE :: "error + 'a \<Rightarrow> ('a \<Rightarrow> error + 'b) \<Rightarrow> error + 'b" where
  "bindE m f = (case m of Inl e \<Rightarrow> Inl e | Inr x \<Rightarrow> f x)"

fun BigInt :: "basevalue \<Rightarrow> error + int" where
  "BigInt (Big i) = Inr i"
| "BigInt (Num (Fin a)) = (if of_int \<lfloor>a\<rfloor> = a then Inr \<lfloor>a\<rfloor> else Inl RangeError)"
| "BigInt (Num d) = Inl RangeError"

text \<open>\<^verbatim>\<open>Number(x)\<close>: a BigInt is rounded to the nearest number.\<close>

fun Number :: "basevalue \<Rightarrow> double" where
  "Number (Num d) = d"
| "Number (Big i) = round64 (of_int i)"

text \<open>BigInt division truncates towards zero.\<close>

definition bigint_div :: "int \<Rightarrow> int \<Rightarrow> error + int" where
  "bigint_div a b =
     (if b = 0 then Inl RangeError else Inr (sgn a * sgn b * (\<bar>a\<bar> div \<bar>b\<bar>)))"

text \<open>
  Relational operators. A comparison with \<^verbatim>\<open>NaN\<close> is false; a number and a BigInt are
  compared by their mathematical values.
\<close>

fun num_lt :: "double \<Rightarrow> double \<Rightarrow> bool" where
  "num_lt (Fin a) (Fin b) = (a < b)"
| "num_lt NaN _ = False"
| "num_lt _ NaN = False"
| "num_lt _ NegInf = False"
| "num_lt PosInf _ = False"
| "num_lt NegInf _ = True"
| "num_lt (Fin a) PosInf = True"

definition num_ge :: "double \<Rightarrow> double \<Rightarrow> bool" where
  "num_ge a b \<longleftrightarrow> a \<noteq> NaN \<and> b \<noteq> NaN \<and> \<not> num_lt a b"

definition num_gt :: "double \<Rightarrow> double \<Rightarrow> bool" where
  "num_gt a b \<longleftrightarrow> num_lt b a"

definition num_le :: "double \<Rightarrow> double \<Rightarrow> bool" where
  "num_le a b \<longleftrightarrow> num_ge b a"

text \<open>\<^verbatim>\<open>===\<close> on two numbers.\<close>

definition num_eq :: "double \<Rightarrow> double \<Rightarrow> bool" where
  "num_eq a b \<longleftrightarrow> a \<noteq> NaN \<and> a = b"

fun as_num :: "basevalue \<Rightarrow> double" where
  "as_num (Num d) = d"
| "as_num (Big i) = Fin (of_int i)"

definition bv_lt :: "basevalue \<Rightarrow> basevalue \<Rightarrow> bool" where
  "bv_lt a b \<longleftrightarrow> num_lt (as_num a) (as_num b)"

definition bv_ge :: "basevalue \<Rightarrow> basevalue \<Rightarrow> bool" where
  "bv_ge a b \<longleftrightarrow> num_ge (as_num a) (as_num b)"


subsection \<open>Strings and numbers\<close>

definition isDigit :: "char \<Rightarrow> bool" where
  "isDigit c \<longleftrightarrow> c \<in> set ''0123456789''"

definition digit_val :: "char \<Rightarrow> nat" where
  "digit_val c = of_char c - 48"

definition digit_char :: "nat \<Rightarrow> char" where
  "digit_char d = ''0123456789'' ! (d mod 10)"

definition nat_of_digits :: "string \<Rightarrow> nat" where
  "nat_of_digits ds = foldl (\<lambda>a c. 10 * a + digit_val c) 0 ds"

function digits10 :: "nat \<Rightarrow> string" where
  "digits10 n = (if n < 10 then [digit_char n] else digits10 (n div 10) @ [digit_char n])"
  by pat_completeness auto
termination
  by (relation "measure id") auto

declare digits10.simps [simp del]

definition pow10r :: "int \<Rightarrow> rat" where
  "pow10r e = (if 0 \<le> e then 10 ^ nat e else 1 / 10 ^ nat (- e))"

text \<open>
  \<^verbatim>\<open>parseFloat\<close> on the text the regular expression captured as the number: digits, an
  optional fraction, an optional unsigned exponent. The result is the number nearest to
  the decimal value, which is infinite when that value is too large. The function is
  only called on such text; on text without leading digit it answers \<^verbatim>\<open>NaN\<close>.
\<close>

definition parseFloat :: "string \<Rightarrow> double" where
  "parseFloat s =
     (let ip = takeWhile isDigit s;
          r1 = dropWhile isDigit s;
          fp = (case r1 of c # r \<Rightarrow> if c = CHR ''.'' then takeWhile isDigit r else [] | [] \<Rightarrow> []);
          r2 = (case r1 of c # r \<Rightarrow> if c = CHR ''.'' \<and> fp \<noteq> [] then dropWhile isDigit r else r1
                | [] \<Rightarrow> []);
          ex = (case r2 of c # r \<Rightarrow> if c = CHR ''e'' then takeWhile isDigit r else [] | [] \<Rightarrow> [])
      in if ip = [] then NaN
         else round64 (of_nat (nat_of_digits (ip @ fp)) * 10 ^ nat_of_digits ex
                         / 10 ^ length fp))"

text \<open>
  \<^verbatim>\<open>String(n)\<close>, that is \<^verbatim>\<open>Number::toString\<close> of the language standard: take the least
  count \<open>k\<close> of significant digits for which some decimal \<open>s \<times> 10\<^sup>n\<^sup>-\<^sup>k\<close> rounds to the number,
  the closest such \<open>s\<close>, and write it without exponent when \<open>-6 < n \<le> 21\<close>.
  \<open>dexp q\<close> is the \<open>n\<close> with \<open>10\<^sup>n\<^sup>-\<^sup>1 \<le> q < 10\<^sup>n\<close>.
\<close>

definition ndigits :: "nat \<Rightarrow> nat" where
  "ndigits n = (if n = 0 then 0 else length (digits10 n))"

definition dexp :: "rat \<Rightarrow> int" where
  "dexp q = (if 1 \<le> q then int (ndigits (nat \<lfloor>q\<rfloor>))
             else 1 - int (ndigits (nat (\<lceil>1 / q\<rceil> - 1))))"

definition digits_at :: "rat \<Rightarrow> int \<Rightarrow> nat \<Rightarrow> int option" where
  "digits_at x n0 k =
     (let t = n0 - int k;
          lo = \<lfloor>x / pow10r t\<rfloor>;
          hi = lo + 1;
          oklo = (round64 (of_int lo * pow10r t) = Fin x);
          okhi = (round64 (of_int hi * pow10r t) = Fin x);
          dlo = x - of_int lo * pow10r t;
          dhi = of_int hi * pow10r t - x
      in if oklo \<and> okhi then
           Some (if dlo < dhi then lo else if dhi < dlo then hi else if even lo then lo else hi)
         else if oklo then Some lo
         else if okhi then Some hi
         else None)"

function shortest_from :: "rat \<Rightarrow> int \<Rightarrow> nat \<Rightarrow> nat \<times> int" where
  "shortest_from x n0 k =
     (if 17 \<le> k then (17, round_even (x / pow10r (n0 - 17)))
      else case digits_at x n0 k of
             Some s \<Rightarrow> (k, s)
           | None \<Rightarrow> shortest_from x n0 (k + 1))"
  by pat_completeness auto
termination
  by (relation "measure (\<lambda>(x, n0, k). 17 - k)") auto

declare shortest_from.simps [simp del]

text \<open>The digits \<open>s\<close> (as a string of \<open>k\<close> characters) and the exponent \<open>n\<close>.\<close>

definition shortest :: "rat \<Rightarrow> string \<times> int" where
  "shortest x =
     (let n0 = dexp x;
          (k, s) = shortest_from x n0 1
      in if s = 10 ^ k then (digits10 (10 ^ (k - 1)), n0 + 1) else (digits10 (nat s), n0))"

definition positiveToString :: "rat \<Rightarrow> string" where
  "positiveToString x =
     (let (ds, n) = shortest x;
          k = int (length ds)
      in if k \<le> n \<and> n \<le> 21 then ds @ replicate (nat (n - k)) (CHR ''0'')
         else if 0 < n \<and> n \<le> 21 then take (nat n) ds @ ''.'' @ drop (nat n) ds
         else if - 6 < n \<and> n \<le> 0 then ''0.'' @ replicate (nat (- n)) (CHR ''0'') @ ds
         else
           let e = n - 1;
               es = (if 0 \<le> e then ''+'' else ''-'') @ digits10 (nat \<bar>e\<bar>)
           in if k = 1 then ds @ ''e'' @ es
              else take 1 ds @ ''.'' @ drop 1 ds @ ''e'' @ es)"

fun numberToString :: "double \<Rightarrow> string" where
  "numberToString NaN = ''NaN''"
| "numberToString PosInf = ''Infinity''"
| "numberToString NegInf = ''-Infinity''"
| "numberToString (Fin x) =
     (if x = 0 then ''0''
      else if x < 0 then ''-'' @ positiveToString (- x)
      else positiveToString x)"

text \<open>\<^verbatim>\<open>s.indexOf(c)\<close>, with \<open>None\<close> for \<^verbatim>\<open>-1\<close>.\<close>

fun indexOf :: "string \<Rightarrow> char \<Rightarrow> nat option" where
  "indexOf [] c = None"
| "indexOf (x # xs) c = (if x = c then Some 0 else map_option Suc (indexOf xs c))"

section \<open>The grammar and the unit table\<close>

subsection \<open>Regular expressions\<close>

text \<open>
  The fragment of regular expressions that \<^verbatim>\<open>reK8sResource\<close> is written in, with the
  usual language semantics and a matcher by derivatives.
\<close>

datatype rexp =
    Never
  | Empty
  | Lit char
  | AnyDigit
  | Or rexp rexp
  | Then rexp rexp
  | Many rexp

definition Opt :: "rexp \<Rightarrow> rexp" where
  "Opt r = Or r Empty"

definition Many1 :: "rexp \<Rightarrow> rexp" where
  "Many1 r = Then r (Many r)"

fun alts :: "string list \<Rightarrow> rexp" where
  "alts [] = Never"
| "alts (w # ws) = Or (foldr (\<lambda>c r. Then (Lit c) r) w Empty) (alts ws)"

inductive_set star :: "string set \<Rightarrow> string set" for A :: "string set" where
  star_nil: "[] \<in> star A"
| star_app: "u \<in> A \<Longrightarrow> v \<in> star A \<Longrightarrow> u @ v \<in> star A"

fun lang :: "rexp \<Rightarrow> string set" where
  "lang Never = {}"
| "lang Empty = {[]}"
| "lang (Lit c) = {[c]}"
| "lang AnyDigit = {[c] | c. isDigit c}"
| "lang (Or r s) = lang r \<union> lang s"
| "lang (Then r s) = {u @ v | u v. u \<in> lang r \<and> v \<in> lang s}"
| "lang (Many r) = star (lang r)"

fun nullable :: "rexp \<Rightarrow> bool" where
  "nullable Never = False"
| "nullable Empty = True"
| "nullable (Lit c) = False"
| "nullable AnyDigit = False"
| "nullable (Or r s) = (nullable r \<or> nullable s)"
| "nullable (Then r s) = (nullable r \<and> nullable s)"
| "nullable (Many r) = True"

fun deriv :: "char \<Rightarrow> rexp \<Rightarrow> rexp" where
  "deriv c Never = Never"
| "deriv c Empty = Never"
| "deriv c (Lit d) = (if c = d then Empty else Never)"
| "deriv c AnyDigit = (if isDigit c then Empty else Never)"
| "deriv c (Or r s) = Or (deriv c r) (deriv c s)"
| "deriv c (Then r s) =
     (if nullable r then Or (Then (deriv c r) s) (deriv c s) else Then (deriv c r) s)"
| "deriv c (Many r) = Then (deriv c r) (Many r)"

fun matches :: "rexp \<Rightarrow> string \<Rightarrow> bool" where
  "matches r [] = nullable r"
| "matches r (c # cs) = matches (deriv c r) cs"

subsection \<open>Units\<close>

text \<open>The keys of \<^verbatim>\<open>unitMultiplier\<close>; \<open>U_none\<close> is the empty string.\<close>

datatype K8sResourceUnit =
    U_u | U_m | U_k | U_M | U_G | U_T | U_P | U_E | U_none
  | U_B | U_Ki | U_Mi | U_Gi | U_Ti | U_Pi | U_Ei

fun unitString :: "K8sResourceUnit \<Rightarrow> string" where
  "unitString U_u = ''u''"
| "unitString U_m = ''m''"
| "unitString U_k = ''k''"
| "unitString U_M = ''M''"
| "unitString U_G = ''G''"
| "unitString U_T = ''T''"
| "unitString U_P = ''P''"
| "unitString U_E = ''E''"
| "unitString U_none = []"
| "unitString U_B = ''B''"
| "unitString U_Ki = ''Ki''"
| "unitString U_Mi = ''Mi''"
| "unitString U_Gi = ''Gi''"
| "unitString U_Ti = ''Ti''"
| "unitString U_Pi = ''Pi''"
| "unitString U_Ei = ''Ei''"

text \<open>
  The literals \<^verbatim>\<open>1e-6\<close> and \<^verbatim>\<open>1e-3\<close> denote the numbers nearest to these decimals; every
  other multiplier is an integer that is a number. \<^verbatim>\<open>E\<close>, \<^verbatim>\<open>Pi\<close> and \<^verbatim>\<open>Ei\<close> are BigInts.
\<close>

fun unitMultiplier :: "K8sResourceUnit \<Rightarrow> basevalue" where
  "unitMultiplier U_u = Num (round64 (1 / 10 ^ 6))"
| "unitMultiplier U_m = Num (round64 (1 / 10 ^ 3))"
| "unitMultiplier U_k = Num (Fin (10 ^ 3))"
| "unitMultiplier U_M = Num (Fin (10 ^ 6))"
| "unitMultiplier U_G = Num (Fin (10 ^ 9))"
| "unitMultiplier U_T = Num (Fin (10 ^ 12))"
| "unitMultiplier U_P = Num (Fin (10 ^ 15))"
| "unitMultiplier U_E = Big (10 ^ 18)"
| "unitMultiplier U_none = Num (Fin 1)"
| "unitMultiplier U_B = Num (Fin 1)"
| "unitMultiplier U_Ki = Num (Fin (2 ^ 10))"
| "unitMultiplier U_Mi = Num (Fin (2 ^ 20))"
| "unitMultiplier U_Gi = Num (Fin (2 ^ 30))"
| "unitMultiplier U_Ti = Num (Fin (2 ^ 30 * 2 ^ 10))"
| "unitMultiplier U_Pi = Big (2 ^ 30 * 2 ^ 20)"
| "unitMultiplier U_Ei = Big (2 ^ 30 * 2 ^ 30)"

subsection \<open>The regular expression of a resource string\<close>

text \<open>
  \<^verbatim>\<open>/^(?<number>\d+(?:\.\d+)?(?:e\d+)?)(?<unit>u|m|k|M|G|T|P|E|B|Ki|Mi|Gi|Ti|Pi|Ei)?$/\<close>
\<close>

definition reNumber :: rexp where
  "reNumber =
     Then (Many1 AnyDigit)
       (Then (Opt (Then (Lit (CHR ''.'')) (Many1 AnyDigit)))
             (Opt (Then (Lit (CHR ''e'')) (Many1 AnyDigit))))"

definition unitTokens :: "K8sResourceUnit list" where
  "unitTokens =
     [U_u, U_m, U_k, U_M, U_G, U_T, U_P, U_E, U_B, U_Ki, U_Mi, U_Gi, U_Ti, U_Pi, U_Ei]"

definition reUnit :: rexp where
  "reUnit = alts (map unitString unitTokens)"

definition reK8sResource :: rexp where
  "reK8sResource = Then reNumber (Opt reUnit)"

text \<open>
  \<^verbatim>\<open>k8sResource.match(reK8sResource)\<close> with its two named groups: the number part is
  tried from the longest prefix down, as the greedy quantifiers do, and the rest is
  the unit, \<^verbatim>\<open>undefined\<close> when the optional group took no part. (No number part ends
  where a unit could begin, so a string has one split at most: lemma \<open>split_unique\<close>.)
\<close>

definition unitOfString :: "string \<Rightarrow> K8sResourceUnit option" where
  "unitOfString w = find (\<lambda>u. unitString u = w) unitTokens"

fun match_from :: "string \<Rightarrow> nat \<Rightarrow> (string \<times> K8sResourceUnit option) option" where
  "match_from s 0 = None"
| "match_from s (Suc i) =
     (let numberPart = take (Suc i) s; unitPart = drop (Suc i) s in
      if matches reNumber numberPart \<and> unitPart = [] then Some (numberPart, None)
      else if matches reNumber numberPart \<and> matches reUnit unitPart
        then Some (numberPart, unitOfString unitPart)
      else match_from s i)"

definition match_reK8sResource :: "string \<Rightarrow> (string \<times> K8sResourceUnit option) option" where
  "match_reK8sResource s = match_from s (length s)"

section \<open>The library\<close>

record K8sParsedResource =
  number :: double
  unit :: "K8sResourceUnit option"

subsection \<open>Parsing\<close>

definition parseResource :: "string \<Rightarrow> error + K8sParsedResource" where
  "parseResource k8sResource =
     (case match_reK8sResource k8sResource of
        None \<Rightarrow> Inl FormatError
      | Some (numberPart, unitPart) \<Rightarrow>
          let n = parseFloat numberPart in
          if \<not> isFinite n then Inl FormatError
          else Inr \<lparr>number = n, unit = unitPart\<rparr>)"

definition getPrecision :: "double \<Rightarrow> nat" where
  "getPrecision n =
     (let sNum = numberToString n in
      case indexOf sNum (CHR ''.'') of
        None \<Rightarrow> 0
      | Some dotIndex \<Rightarrow> length sNum - dotIndex - 1)"

subsection \<open>Scaling to the base unit\<close>

definition parsedResourceToBaseUnit :: "K8sParsedResource \<Rightarrow> error + basevalue" where
  "parsedResourceToBaseUnit r =
     (let uMul = (case unit r of None \<Rightarrow> Num (Fin 1) | Some u \<Rightarrow> unitMultiplier u) in
      case uMul of
        Big bMul \<Rightarrow>
          (let precision = getPrecision (number r);
               pMul = pow10 precision
           in bindE (BigInt (Num (fmul (number r) pMul))) (\<lambda>a.
              bindE (BigInt (Num pMul)) (\<lambda>b.
              bindE (bigint_div (a * bMul) b) (\<lambda>q. Inr (Big q)))))
      | Num fMul \<Rightarrow>
          (let result = fmul (number r) fMul in
           if num_le result MAX_SAFE_INTEGER then Inr (Num result)
           else
             let precision = getPrecision (number r);
                 mul = pow10 precision
             in bindE (BigInt (Num (fmul (number r) mul))) (\<lambda>a.
                bindE (BigInt (Num fMul)) (\<lambda>m.
                bindE (BigInt (Num mul)) (\<lambda>b.
                bindE (bigint_div (a * m) b) (\<lambda>q. Inr (Big q)))))))"

definition resourceStringToBaseUnit :: "string \<Rightarrow> error + basevalue" where
  "resourceStringToBaseUnit s = bindE (parseResource s) parsedResourceToBaseUnit"

subsection \<open>Comparing\<close>

definition compareParsedResources ::
  "K8sParsedResource \<Rightarrow> K8sParsedResource \<Rightarrow> error + int" where
  "compareParsedResources a b =
     (if unit a = unit b then
        Inr (if num_eq (number a) (number b) then 0
             else if num_gt (number a) (number b) then 1 else - 1)
      else
        bindE (parsedResourceToBaseUnit a) (\<lambda>baseUnitA.
        bindE (parsedResourceToBaseUnit b) (\<lambda>baseUnitB.
          if \<not> isBig baseUnitA \<and> \<not> isBig baseUnitB then
            Inr (if num_eq (as_num baseUnitA) (as_num baseUnitB) then 0
                 else if num_gt (as_num baseUnitA) (as_num baseUnitB) then 1 else - 1)
          else
            bindE (BigInt baseUnitA) (\<lambda>bigA.
            bindE (BigInt baseUnitB) (\<lambda>bigB.
              Inr (if bigA = bigB then 0 else if bigA > bigB then 1 else - 1))))))"

definition compareResourceStrings :: "string \<Rightarrow> string \<Rightarrow> error + int" where
  "compareResourceStrings a b =
     bindE (parseResource a) (\<lambda>pa.
     bindE (parseResource b) (\<lambda>pb. compareParsedResources pa pb))"

subsection \<open>Formatting\<close>

text \<open>
  \<^verbatim>\<open>formatParsedResource\<close> hands the number to \<^verbatim>\<open>Intl.NumberFormat\<close>, which belongs to
  the platform and not to this library. The formatter that the locale and the merged
  options construct is the parameter \<open>fmt\<close>.
\<close>

definition formatParsedResource :: "(double \<Rightarrow> string) \<Rightarrow> K8sParsedResource \<Rightarrow> string" where
  "formatParsedResource fmt parsedResource =
     fmt (number parsedResource) @
     (case unit parsedResource of None \<Rightarrow> [] | Some u \<Rightarrow> unitString u)"

subsection \<open>Scaling from the base unit\<close>

definition cpuUnits :: "K8sResourceUnit list" where
  "cpuUnits = [U_u, U_m, U_k, U_none, U_M, U_G, U_T, U_P, U_E]"

definition memoryUnits :: "K8sResourceUnit list" where
  "memoryUnits = [U_none, U_Ki, U_Mi, U_Gi, U_Ti, U_Pi, U_Ei]"

text \<open>
  The loop \<^verbatim>\<open>while (i--) { ... if (n >= multiplier) break; }\<close> of both scaling
  functions, over the list \<open>units\<close>: the state is the pair of \<^verbatim>\<open>unit\<close> and
  \<^verbatim>\<open>multiplier\<close>, and \<open>i\<close> is the value of the counter before the test.
\<close>

fun scan :: "K8sResourceUnit list \<Rightarrow> basevalue \<Rightarrow> nat \<Rightarrow>
    K8sResourceUnit option \<times> basevalue \<Rightarrow> error + K8sResourceUnit option \<times> basevalue" where
  "scan units baseUnitNumber 0 st = Inr st"
| "scan units baseUnitNumber (Suc i) st =
     (let u = units ! i;
          multiplier = unitMultiplier u
      in bindE
           (if isBig baseUnitNumber then
              bindE (BigInt multiplier) (\<lambda>m. Inr (baseUnitNumber, Big m))
            else if isBig multiplier then
              bindE (BigInt (Num (trunc (as_num baseUnitNumber)))) (\<lambda>n. Inr (Big n, multiplier))
            else Inr (baseUnitNumber, multiplier))
           (\<lambda>(n, multiplier).
              if bv_ge n multiplier then Inr (Some u, multiplier)
              else scan units baseUnitNumber i (Some u, multiplier)))"

text \<open>A unit is truthy when it is given and is not the empty string.\<close>

fun truthy :: "K8sResourceUnit option \<Rightarrow> bool" where
  "truthy None = False"
| "truthy (Some u) = (u \<noteq> U_none)"

text \<open>The division at the end of both scaling functions, and the record built.\<close>

definition scaled :: "basevalue \<Rightarrow> K8sResourceUnit option \<times> basevalue \<Rightarrow>
    error + K8sParsedResource" where
  "scaled baseUnitNumber st =
     (let (u, multiplier) = st;
          isNumBig = isBig baseUnitNumber;
          isUnitBig = isBig multiplier
      in bindE
           (if isNumBig \<noteq> isUnitBig then
              bindE (BigInt baseUnitNumber) (\<lambda>a.
              bindE (BigInt multiplier) (\<lambda>b.
              bindE (bigint_div a b) (\<lambda>q. Inr (Big q))))
            else if isNumBig then
              bindE (BigInt baseUnitNumber) (\<lambda>a.
              bindE (BigInt multiplier) (\<lambda>b.
              bindE (bigint_div a b) (\<lambda>q. Inr (Big q))))
            else Inr (Num (fdiv (as_num baseUnitNumber) (as_num multiplier))))
           (\<lambda>q. Inr \<lparr>number = Number q, unit = u\<rparr>))"

definition scaleBaseUnitCpu ::
  "basevalue \<Rightarrow> K8sResourceUnit option \<Rightarrow> error + K8sParsedResource" where
  "scaleBaseUnitCpu baseUnitNumber u =
     (if truthy u then
        bindE (if isBig baseUnitNumber
               then bindE (BigInt (unitMultiplier (the u))) (\<lambda>m. Inr (Big m))
               else Inr (unitMultiplier (the u)))
          (\<lambda>multiplier. scaled baseUnitNumber (u, multiplier))
      else if num_eq (Number baseUnitNumber) (Fin 0) then
        Inr \<lparr>number = Fin 0, unit = None\<rparr>
      else
        bindE (scan cpuUnits baseUnitNumber
                 (if bv_lt baseUnitNumber (Num (Fin 1)) then 3 else length cpuUnits)
                 (u, Num (Fin 1)))
          (scaled baseUnitNumber))"

definition scaleBaseUnitMemory ::
  "basevalue \<Rightarrow> K8sResourceUnit option \<Rightarrow> error + K8sParsedResource" where
  "scaleBaseUnitMemory baseUnitNumber u =
     (if truthy u then
        bindE (if isBig baseUnitNumber
               then bindE (BigInt (unitMultiplier (the u))) (\<lambda>m. Inr (Big m))
               else Inr (unitMultiplier (the u)))
          (\<lambda>multiplier. scaled baseUnitNumber (u, multiplier))
      else
        bindE (scan memoryUnits baseUnitNumber (length memoryUnits) (u, Num (Fin 1)))
          (scaled baseUnitNumber))"

definition formatBaseUnitCpu ::
  "(double \<Rightarrow> string) \<Rightarrow> basevalue \<Rightarrow> K8sResourceUnit option \<Rightarrow> error + string" where
  "formatBaseUnitCpu fmt baseUnitNumber u =
     bindE (scaleBaseUnitCpu baseUnitNumber u) (\<lambda>parsedResource.
       Inr (formatParsedResource fmt parsedResource))"

definition formatBaseUnitMemory ::
  "(double \<Rightarrow> string) \<Rightarrow> basevalue \<Rightarrow> K8sResourceUnit option \<Rightarrow> error + string" where
  "formatBaseUnitMemory fmt baseUnitNumber u =
     bindE (scaleBaseUnitMemory baseUnitNumber u) (\<lambda>parsedResource.
       Inr (formatParsedResource fmt parsedResource))"

subsection \<open>Adding\<close>

definition add :: "basevalue \<Rightarrow> basevalue \<Rightarrow> error + basevalue" where
  "add a b =
     (if isBig a \<or> isBig b then
        bindE (BigInt a) (\<lambda>x. bindE (BigInt b) (\<lambda>y. Inr (Big (x + y))))
      else Inr (Num (fadd (as_num a) (as_num b))))"

section \<open>The grammar as the specification words it\<close>

text \<open>
  A resource string is a decimal number, with an optional fraction and an optional
  exponent \<^verbatim>\<open>e\<close> followed by digits (no sign), immediately followed by an optional unit
  out of fifteen; nothing comes before or after.
\<close>

definition digits_text :: "string \<Rightarrow> bool" where
  "digits_text w \<longleftrightarrow> w \<noteq> [] \<and> (\<forall>c \<in> set w. isDigit c)"

definition unit_tokens :: "string set" where
  "unit_tokens = {''u'', ''m'', ''k'', ''M'', ''G'', ''T'', ''P'', ''E'', ''B'',
                  ''Ki'', ''Mi'', ''Gi'', ''Ti'', ''Pi'', ''Ei''}"

definition number_text :: "string \<Rightarrow> bool" where
  "number_text w \<longleftrightarrow>
     (\<exists>ip fp ep. w = ip @ fp @ ep \<and> digits_text ip
        \<and> (fp = [] \<or> (\<exists>f. fp = CHR ''.'' # f \<and> digits_text f))
        \<and> (ep = [] \<or> (\<exists>x. ep = CHR ''e'' # x \<and> digits_text x)))"

definition unit_text :: "string \<Rightarrow> bool" where
  "unit_text w \<longleftrightarrow> w = [] \<or> w \<in> unit_tokens"

definition is_resource_string :: "string \<Rightarrow> bool" where
  "is_resource_string s \<longleftrightarrow> (\<exists>np up. s = np @ up \<and> number_text np \<and> unit_text up)"

text \<open>Auxiliary notions for the proofs about the matcher.\<close>

definition split_ok :: "string \<Rightarrow> nat \<Rightarrow> bool" where
  "split_ok s j \<longleftrightarrow> number_text (take j s) \<and> unit_text (drop j s)"

definition numchar :: "char \<Rightarrow> bool" where
  "numchar c \<longleftrightarrow> isDigit c \<or> c = CHR ''.'' \<or> c = CHR ''e''"

section \<open>Evaluation lemmas\<close>

lemma floor_rat_numeral [simp]:
  "\<lfloor>numeral a / numeral b :: rat\<rfloor> = numeral a div numeral b"
  by (metis floor_divide_of_int_eq of_int_numeral)

lemma ceiling_rat_numeral [simp]:
  "\<lceil>numeral a / numeral b :: rat\<rceil> = - (- numeral a div numeral b)"
  by (metis ceiling_def floor_divide_of_int_eq of_int_numeral of_int_minus divide_minus_left)

lemma floor_rat_one_numeral [simp]: "\<lfloor>1 / numeral b :: rat\<rfloor> = 1 div numeral b"
  using floor_rat_numeral [of Num.One b] by simp

lemma ceiling_rat_one_numeral [simp]: "\<lceil>1 / numeral b :: rat\<rceil> = - (- 1 div numeral b)"
  using ceiling_rat_numeral [of Num.One b] by simp

lemma bitlen_numeral:
  "bitlen (numeral k) = bitlen (numeral k div 2) + 1"
  "bitlen 1 = 1"
  "bitlen (- numeral k) = 0"
  by (subst compute_bitlen, simp)+

lemmas r64_ev = round64_def ilog2_def pow2_def round_even_def Let_def bitlen_numeral

lemmas re_ev = reNumber_def reUnit_def unitTokens_def Opt_def Many1_def isDigit_def
  match_reK8sResource_def unitOfString_def

lemmas pf_ev = parseFloat_def nat_of_digits_def digit_val_def

lemmas str_ev = getPrecision_def positiveToString_def shortest_def shortest_from.simps
  digits_at_def dexp_def ndigits_def digits10.simps digit_char_def pow10r_def

lemma bindE_simps [simp]:
  "bindE (Inl e) f = Inl e"
  "bindE (Inr x) f = f x"
  by (simp_all add: bindE_def)

lemma round64_zero [simp]: "round64 0 = Fin 0"
  by (simp add: round64_def)

lemma round64_one [simp]: "round64 1 = Fin 1"
  by (simp add: r64_ev)

lemma pow10_0 [simp]: "pow10 0 = Fin 1"
  by (simp add: pow10_def)

lemma pow10_1 [simp]: "pow10 (Suc 0) = Fin 10"
  by (simp add: pow10_def r64_ev)

lemma pow10_2: "pow10 2 = Fin 100"
  by (simp add: pow10_def r64_ev)

lemma milli_value [simp]: "round64 (1 / 1000) = Fin (1152921504606847 / 1152921504606846976)"
  by (simp add: r64_ev)

lemma micro_value [simp]:
  "round64 (1 / 1000000) = Fin (4722366482869645 / 4722366482869645213696)"
  by (simp add: r64_ev)

lemma getPrecision_zero [simp]: "getPrecision (Fin 0) = 0"
  by (simp add: getPrecision_def)

lemma getPrecision_one [simp]: "getPrecision (Fin 1) = 0"
  by (simp add: str_ev r64_ev)

lemmas scale_ev = scaleBaseUnitCpu_def scaleBaseUnitMemory_def cpuUnits_def memoryUnits_def
  num_eq_def bv_lt_def bv_ge_def num_ge_def numeral_3_eq_3 scaled_def bigint_div_def

lemma parse_0_07E:
  "parseResource ''0.07E'' =
     Inr \<lparr>number = Fin (1261007895663739 / 18014398509481984), unit = Some U_E\<rparr>"
  by (simp add: parseResource_def re_ev pf_ev r64_ev)

lemma getPrecision_0_07: "getPrecision (Fin (1261007895663739 / 18014398509481984)) = 2"
  by (simp add: str_ev r64_ev)

lemma parse_1e25m:
  "parseResource ''1e25m'' =
     Inr \<lparr>number = Fin 10000000000000000905969664, unit = Some U_m\<rparr>"
  by (simp add: parseResource_def re_ev pf_ev r64_ev)

lemma getPrecision_1e25: "getPrecision (Fin 10000000000000000905969664) = 0"
  by (simp add: str_ev r64_ev)

lemma parse_1E: "parseResource ''1E'' = Inr \<lparr>number = Fin 1, unit = Some U_E\<rparr>"
  by (simp add: parseResource_def re_ev pf_ev)

lemma parse_0_5: "parseResource ''0.5'' = Inr \<lparr>number = Fin (1 / 2), unit = None\<rparr>"
  by (simp add: parseResource_def re_ev pf_ev r64_ev)


section \<open>Scaling to the base unit: where the conversion to BigInt fails\<close>

text \<open>
  Claim C1. \<^verbatim>\<open>parsedResourceToBaseUnit\<close> takes the multiplier of the unit (1 without
  unit); for a BigInt multiplier it returns
  \<open>((round(mantissa \<times> 10\<^sup>p) as integer) \<times> multiplier) / 10\<^sup>p\<close> in integer arithmetic, \<open>p\<close>
  the count of decimal digits of the mantissa, and for a number multiplier the
  floating product when that is a safe integer and the same integer computation
  otherwise.

  The code does not round the product \<open>mantissa \<times> 10\<^sup>p\<close>: it hands the floating product to
  \<^verbatim>\<open>BigInt\<close>, which throws when the product is not an integer. The string \<^verbatim>\<open>0.07E\<close>
  parses to the number nearest to 0.07 with unit \<^verbatim>\<open>E\<close>; its precision is 2, the floating
  product with 100 is \<open>7 + 2\<^sup>-\<^sup>5\<^sup>0\<close>, and the function raises \<^verbatim>\<open>RangeError\<close> where the claim
  gives \<open>7 \<times> 10\<^sup>1\<^sup>6\<close>.
\<close>

theorem toBase_0_07E_raises:
  "parseResource ''0.07E'' =
     Inr \<lparr>number = Fin (1261007895663739 / 18014398509481984), unit = Some U_E\<rparr>
   \<and> getPrecision (Fin (1261007895663739 / 18014398509481984)) = 2
   \<and> fmul (Fin (1261007895663739 / 18014398509481984)) (pow10 2) = Fin (7 + 1 / 2 ^ 50)
   \<and> parsedResourceToBaseUnit
        \<lparr>number = Fin (1261007895663739 / 18014398509481984), unit = Some U_E\<rparr>
       = Inl RangeError"
  by (simp add: parse_0_07E parsedResourceToBaseUnit_def getPrecision_0_07 pow10_2 r64_ev)

text \<open>
  Claim C4. The parser is the only source of failure: on every quantity the parser
  produced and every base value \<^verbatim>\<open>parsedResourceToBaseUnit\<close> produced, the other
  operations return without raising.

  The string \<^verbatim>\<open>1e25m\<close> parses, to the number \<open>10\<^sup>2\<^sup>5\<close> (as binary64) with unit \<^verbatim>\<open>m\<close>. The
  product with 0.001 is not a safe integer, so the function converts the multiplier
  0.001 itself with \<^verbatim>\<open>BigInt\<close>, and that raises \<^verbatim>\<open>RangeError\<close>.
\<close>

theorem toBase_1e25m_raises:
  "parseResource ''1e25m'' =
     Inr \<lparr>number = Fin 10000000000000000905969664, unit = Some U_m\<rparr>
   \<and> resourceStringToBaseUnit ''1e25m'' = Inl RangeError"
  by (simp add: resourceStringToBaseUnit_def parse_1e25m parsedResourceToBaseUnit_def
      getPrecision_1e25 MAX_SAFE_INTEGER_def num_le_def num_ge_def r64_ev)

text \<open>An error of the parser passes through the two compositions unchanged.\<close>

lemma parser_error_propagates:
  assumes "parseResource s = Inl e"
  shows "resourceStringToBaseUnit s = Inl e"
    and "compareResourceStrings s t = Inl e"
    and "parseResource t = Inr p \<Longrightarrow> compareResourceStrings t s = Inl e"
  using assms by (simp_all add: resourceStringToBaseUnit_def compareResourceStrings_def)

section \<open>Comparing\<close>

text \<open>
  Claim C5. On all valid quantities \<^verbatim>\<open>compareParsedResources\<close> is a total order up to
  equality of base values: \<open>compare(a, b) = - compare(b, a)\<close>, transitive, and 0 exactly
  for equal base values.

  Both \<^verbatim>\<open>1E\<close> and \<^verbatim>\<open>0.5\<close> parse. Their units differ, one base value is the BigInt
  \<open>10\<^sup>1\<^sup>8\<close> and the other the number 0.5, so the comparison converts 0.5 with \<^verbatim>\<open>BigInt\<close> and
  raises \<^verbatim>\<open>RangeError\<close>: it returns no sign at all, in either order.
\<close>

theorem compare_1E_0_5_raises:
  "parseResource ''1E'' = Inr \<lparr>number = Fin 1, unit = Some U_E\<rparr>
   \<and> parseResource ''0.5'' = Inr \<lparr>number = Fin (1 / 2), unit = None\<rparr>
   \<and> compareResourceStrings ''1E'' ''0.5'' = Inl RangeError
   \<and> compareResourceStrings ''0.5'' ''1E'' = Inl RangeError"
  by (simp add: compareResourceStrings_def parse_1E parse_0_5 compareParsedResources_def
      parsedResourceToBaseUnit_def bigint_div_def MAX_SAFE_INTEGER_def num_le_def num_ge_def
      r64_ev)

text \<open>
  The two comparisons that the claim lists, and the symmetry of the comparison whenever
  it returns.
\<close>

lemma compare_examples:
  "compareResourceStrings ''1Gi'' ''1024Mi'' = Inr 0"
  "compareResourceStrings ''1Mi'' ''1M'' = Inr 1"
  "compareResourceStrings ''1M'' ''1Mi'' = Inr (- 1)"
  by (simp_all add: compareResourceStrings_def compareParsedResources_def parseResource_def
      parsedResourceToBaseUnit_def MAX_SAFE_INTEGER_def num_le_def num_ge_def num_eq_def
      num_gt_def re_ev pf_ev r64_ev)

lemma toBase_Num_not_NaN:
  "parsedResourceToBaseUnit a = Inr (Num d) \<Longrightarrow> d \<noteq> NaN"
  by (auto simp: parsedResourceToBaseUnit_def Let_def num_le_def num_ge_def bindE_def
      split: option.splits basevalue.splits if_splits sum.splits)

lemma num_lt_asym: "num_lt x y \<Longrightarrow> \<not> num_lt y x"
  by (cases x; cases y) auto

lemma num_trichotomy: "x \<noteq> NaN \<Longrightarrow> y \<noteq> NaN \<Longrightarrow> x \<noteq> y \<Longrightarrow> num_lt x y \<or> num_lt y x"
  by (cases x; cases y) auto

lemma compare_antisymmetric:
  assumes "number a \<noteq> NaN" "number b \<noteq> NaN"
    and "compareParsedResources a b = Inr r"
  shows "compareParsedResources b a = Inr (- r)"
proof (cases "unit a = unit b")
  case True
  with assms show ?thesis
    using num_lt_asym [of "number a" "number b"] num_trichotomy [of "number a" "number b"]
    by (auto simp: compareParsedResources_def num_eq_def num_gt_def split: if_splits)
next
  case False
  from assms(3) False obtain x y where xy: "parsedResourceToBaseUnit a = Inr x"
      "parsedResourceToBaseUnit b = Inr y"
    by (auto simp: compareParsedResources_def bindE_def split: sum.splits)
  show ?thesis
  proof (cases "isBig x \<or> isBig y")
    case True
    with assms(3) False xy show ?thesis
      by (auto simp: compareParsedResources_def bindE_def split: sum.splits if_splits)
  next
    case notBig: False
    then obtain dx dy where d: "x = Num dx" "y = Num dy"
      by (cases x; cases y) auto
    with xy toBase_Num_not_NaN have "dx \<noteq> NaN" "dy \<noteq> NaN" by blast+
    with assms(3) False xy d show ?thesis
      using num_lt_asym [of dx dy] num_trichotomy [of dx dy]
      by (auto simp: compareParsedResources_def num_eq_def num_gt_def split: if_splits)
  qed
qed

section \<open>Scaling from the base unit\<close>

text \<open>
  Claim C3. Without unit argument, the scaling functions select the largest unit of
  the family whose multiplier does not exceed the (nonzero) value, scanning the list of
  units from the largest magnitude down.

  The list \<^verbatim>\<open>cpuUnits\<close> holds \<^verbatim>\<open>k\<close> before the empty unit, so the scan from the end meets
  the empty unit (multiplier 1) before \<^verbatim>\<open>k\<close> (multiplier 1000): for the value 1000 the
  largest unit not above it is \<^verbatim>\<open>k\<close>, and the code answers 1000 with the empty unit; the
  value 2000 is formatted as the formatter's text for 2000 with no unit after it.
\<close>

theorem scaleCpu_1000_selects_no_unit:
  "scaleBaseUnitCpu (Num (Fin 1000)) None = Inr \<lparr>number = Fin 1000, unit = Some U_none\<rparr>
   \<and> formatBaseUnitCpu fmt (Num (Fin 2000)) None = Inr (fmt (Fin 2000))"
  by (simp add: formatBaseUnitCpu_def formatParsedResource_def scale_ev r64_ev)

text \<open>The values that the claim lists, before formatting.\<close>

lemma auto_unit_examples:
  "scaleBaseUnitCpu (Num (Fin (1 / 2))) None = Inr \<lparr>number = Fin 500, unit = Some U_m\<rparr>"
  "scaleBaseUnitCpu (Num (Fin 2000000)) None = Inr \<lparr>number = Fin 2, unit = Some U_M\<rparr>"
  "scaleBaseUnitCpu (Big (10 ^ 17)) None = Inr \<lparr>number = Fin 100, unit = Some U_P\<rparr>"
  "scaleBaseUnitCpu (Num (Fin (10 ^ 17))) None = Inr \<lparr>number = Fin 100, unit = Some U_P\<rparr>"
  "scaleBaseUnitMemory (Num (Fin 1024)) None = Inr \<lparr>number = Fin 1, unit = Some U_Ki\<rparr>"
  "scaleBaseUnitMemory (Num (round64 (202782720131072 / 1000000))) None =
     Inr \<lparr>number = round64 (193388672 / 1000000), unit = Some U_Mi\<rparr>"
  by (simp_all add: scale_ev r64_ev)

text \<open>
  What the scan does select. For a number from 1 up to the first BigInt multiplier of
  the family, the memory scan returns the largest unit whose multiplier does not
  exceed the value, and the CPU scan the largest such unit other than \<^verbatim>\<open>k\<close>.
  From \<open>2\<^sup>5\<^sup>0\<close> on, a memory value with a fraction selects the BigInt unit \<^verbatim>\<open>Pi\<close>, and the
  division then converts the value itself with \<^verbatim>\<open>BigInt\<close>, which raises.
\<close>

lemma memory_auto_unit:
  assumes "1 \<le> x" "x < 2 ^ 50"
  shows "\<exists>q u. scaleBaseUnitMemory (Num (Fin x)) None = Inr \<lparr>number = q, unit = Some u\<rparr>
     \<and> u \<in> set memoryUnits
     \<and> bv_ge (Num (Fin x)) (unitMultiplier u)
     \<and> (\<forall>u' \<in> set memoryUnits. bv_ge (Num (Fin x)) (unitMultiplier u')
           \<longrightarrow> bv_ge (unitMultiplier u) (unitMultiplier u'))"
proof -
  have fl: "\<lfloor>x\<rfloor> < 2 ^ 50" "\<lfloor>x\<rfloor> < 2 ^ 60"
    using assms(2) by (simp_all add: floor_less_iff)
  consider "2 ^ 40 \<le> x" | "2 ^ 30 \<le> x" "x < 2 ^ 40" | "2 ^ 20 \<le> x" "x < 2 ^ 30"
    | "2 ^ 10 \<le> x" "x < 2 ^ 20" | "x < 2 ^ 10"
    by linarith
  then show ?thesis
    using assms fl
    by cases (simp_all add: scaleBaseUnitMemory_def memoryUnits_def bv_ge_def num_ge_def
        scaled_def numeral_eq_Suc)
qed

lemma cpu_auto_unit:
  assumes "1 \<le> x" "x < 10 ^ 18"
  shows "\<exists>q u. scaleBaseUnitCpu (Num (Fin x)) None = Inr \<lparr>number = q, unit = Some u\<rparr>
     \<and> u \<in> set cpuUnits \<and> u \<noteq> U_k
     \<and> bv_ge (Num (Fin x)) (unitMultiplier u)
     \<and> (\<forall>u' \<in> set cpuUnits. u' \<noteq> U_k \<and> bv_ge (Num (Fin x)) (unitMultiplier u')
           \<longrightarrow> bv_ge (unitMultiplier u) (unitMultiplier u'))"
proof -
  have fl: "\<lfloor>x\<rfloor> < 10 ^ 18"
    using assms(2) by (simp add: floor_less_iff)
  consider "10 ^ 15 \<le> x" | "10 ^ 12 \<le> x" "x < 10 ^ 15" | "10 ^ 9 \<le> x" "x < 10 ^ 12"
    | "10 ^ 6 \<le> x" "x < 10 ^ 9" | "x < 10 ^ 6"
    by linarith
  then show ?thesis
    using assms fl
    by cases (simp_all add: scaleBaseUnitCpu_def cpuUnits_def bv_ge_def bv_lt_def num_ge_def
        num_eq_def scaled_def numeral_eq_Suc)
qed

lemma memory_auto_unit_fraction_raises:
  "parsedResourceToBaseUnit \<lparr>number = Fin (2 ^ 50 + 1 / 2), unit = None\<rparr>
     = Inr (Num (Fin (2 ^ 50 + 1 / 2)))
   \<and> scaleBaseUnitMemory (Num (Fin (2 ^ 50 + 1 / 2))) None = Inl RangeError"
  by (simp add: parsedResourceToBaseUnit_def MAX_SAFE_INTEGER_def num_le_def
      scaleBaseUnitMemory_def memoryUnits_def bv_ge_def num_ge_def scaled_def numeral_eq_Suc
      r64_ev)

text \<open>
  Claim C9. With a non-empty unit given, the shortcut for zero is not taken: for the
  base value 0 and every non-empty unit \<open>u\<close> both scaling functions return the number
  0 with the unit \<open>u\<close>.

  This holds for the number 0, and for the BigInt 0 with every unit whose multiplier is
  an integer. For the BigInt 0 (the base value of \<^verbatim>\<open>0E\<close>) and the units \<^verbatim>\<open>u\<close> and \<^verbatim>\<open>m\<close> the code
  converts the fractional multiplier with \<^verbatim>\<open>BigInt\<close> and raises \<^verbatim>\<open>RangeError\<close>.
\<close>

theorem scaleCpu_bigint_zero_milli_raises:
  "parsedResourceToBaseUnit \<lparr>number = Fin 0, unit = Some U_E\<rparr> = Inr (Big 0)
   \<and> scaleBaseUnitCpu (Big 0) (Some U_m) = Inl RangeError
   \<and> scaleBaseUnitCpu (Big 0) (Some U_u) = Inl RangeError"
  by (simp add: parsedResourceToBaseUnit_def bigint_div_def scaleBaseUnitCpu_def)

lemma explicit_unit_zero_number_cpu:
  "u \<in> set cpuUnits \<Longrightarrow> u \<noteq> U_none \<Longrightarrow>
     scaleBaseUnitCpu (Num (Fin 0)) (Some u) = Inr \<lparr>number = Fin 0, unit = Some u\<rparr>"
  by (auto simp add: scale_ev)

lemma explicit_unit_zero_number_memory:
  "u \<in> set memoryUnits \<Longrightarrow> u \<noteq> U_none \<Longrightarrow>
     scaleBaseUnitMemory (Num (Fin 0)) (Some u) = Inr \<lparr>number = Fin 0, unit = Some u\<rparr>"
  by (auto simp add: scale_ev)

lemma explicit_unit_zero_bigint_memory:
  "u \<in> set memoryUnits \<Longrightarrow> u \<noteq> U_none \<Longrightarrow>
     scaleBaseUnitMemory (Big 0) (Some u) = Inr \<lparr>number = Fin 0, unit = Some u\<rparr>"
  by (auto simp add: scale_ev)

lemma explicit_unit_zero_bigint_cpu:
  "u \<in> set cpuUnits \<Longrightarrow> u \<notin> {U_none, U_u, U_m} \<Longrightarrow>
     scaleBaseUnitCpu (Big 0) (Some u) = Inr \<lparr>number = Fin 0, unit = Some u\<rparr>"
  by (auto simp add: scale_ev)

section \<open>Adding\<close>

text \<open>
  Claim C10. For two numbers, \<^verbatim>\<open>add\<close> returns their floating sum and never a BigInt,
  also when the exact sum is beyond the safe integers: \<open>add(2\<^sup>5\<^sup>3, 1)\<close> is \<open>2\<^sup>5\<^sup>3\<close>, while
  \<open>2\<^sup>5\<^sup>3 + 1\<close> is above \<^verbatim>\<open>MAX_SAFE_INTEGER\<close>.
\<close>

theorem adding_numbers_stays_floating:
  "(\<forall>a b. add (Num a) (Num b) = Inr (Num (fadd a b)))
   \<and> add (Num (Fin (2 ^ 53))) (Num (Fin 1)) = Inr (Num (Fin (2 ^ 53)))
   \<and> num_lt MAX_SAFE_INTEGER (Fin (2 ^ 53 + 1))"
  by (simp add: add_def MAX_SAFE_INTEGER_def r64_ev)

section \<open>Parsing\<close>

subsection \<open>The matcher decides the language\<close>

lemma star_cons_iff:
  "c # w \<in> star A \<longleftrightarrow> (\<exists>u v. w = u @ v \<and> c # u \<in> A \<and> v \<in> star A)"
proof
  assume "c # w \<in> star A"
  then show "\<exists>u v. w = u @ v \<and> c # u \<in> A \<and> v \<in> star A"
  proof (induction "c # w" arbitrary: w rule: star.induct)
    case (star_app u v)
    show ?case
    proof (cases u)
      case Nil
      with star_app show ?thesis by simp
    next
      case (Cons d u')
      with star_app.hyps(1,2,4) show ?thesis by auto
    qed
  qed
next
  assume "\<exists>u v. w = u @ v \<and> c # u \<in> A \<and> v \<in> star A"
  then obtain u v where "w = u @ v" "c # u \<in> A" "v \<in> star A" by blast
  then show "c # w \<in> star A"
    using star_app [of "c # u" A v] by simp
qed

lemma nullable_iff: "nullable r \<longleftrightarrow> [] \<in> lang r"
  by (induction r) (auto intro: star_nil)

lemma conc_cons_iff:
  "(\<exists>u v. c # w = u @ v \<and> u \<in> A \<and> v \<in> B) \<longleftrightarrow>
     ([] \<in> A \<and> c # w \<in> B) \<or> (\<exists>u v. w = u @ v \<and> c # u \<in> A \<and> v \<in> B)"
  by (auto simp: Cons_eq_append_conv)

lemma lang_deriv: "w \<in> lang (deriv c r) \<longleftrightarrow> c # w \<in> lang r"
proof (induction r arbitrary: w)
  case (Then r s)
  then show ?case
    by (simp add: conc_cons_iff nullable_iff) blast
next
  case (Many r)
  then show ?case by (auto simp: star_cons_iff)
qed auto

lemma matches_iff_lang: "matches r w \<longleftrightarrow> w \<in> lang r"
  by (induction w arbitrary: r) (simp_all add: nullable_iff lang_deriv)


subsection \<open>The language of the regular expression\<close>

lemma star_digits: "star {[c] | c. isDigit c} = {w. \<forall>c \<in> set w. isDigit c}"
proof (intro set_eqI iffI)
  fix w assume "w \<in> star {[c] | c. isDigit c}"
  then show "w \<in> {w. \<forall>c \<in> set w. isDigit c}"
    by (induction rule: star.induct) auto
next
  fix w :: string assume "w \<in> {w. \<forall>c \<in> set w. isDigit c}"
  then show "w \<in> star {[c] | c. isDigit c}"
  proof (induction w)
    case Nil
    show ?case by (rule star_nil)
  next
    case (Cons c w)
    then have "[c] \<in> {[c] | c. isDigit c}" "w \<in> star {[c] | c. isDigit c}" by auto
    then have "[c] @ w \<in> star {[c] | c. isDigit c}" by (rule star_app)
    then show ?case by simp
  qed
qed

lemma lang_digits: "w \<in> lang (Many1 AnyDigit) \<longleftrightarrow> digits_text w"
proof
  assume "w \<in> lang (Many1 AnyDigit)"
  then show "digits_text w"
    by (auto simp: Many1_def star_digits digits_text_def)
next
  assume "digits_text w"
  then obtain c v where "w = [c] @ v" "isDigit c" "\<forall>d \<in> set v. isDigit d"
    by (cases w) (auto simp: digits_text_def)
  then show "w \<in> lang (Many1 AnyDigit)"
    unfolding Many1_def lang.simps star_digits by blast
qed

lemma lang_Opt: "lang (Opt r) = insert [] (lang r)"
  by (auto simp: Opt_def)

lemma lang_word: "lang (foldr (\<lambda>c r. Then (Lit c) r) w Empty) = {w}"
  by (induction w) auto

lemma lang_alts: "lang (alts ws) = set ws"
  by (induction ws) (auto simp: lang_word)

lemma lang_reUnit: "lang reUnit = unit_tokens"
  by (auto simp add: reUnit_def lang_alts unitTokens_def unit_tokens_def)

lemma lang_reNumber: "w \<in> lang reNumber \<longleftrightarrow> number_text w"
proof
  assume "w \<in> lang reNumber"
  then obtain ip fp ep where w: "w = ip @ fp @ ep" "ip \<in> lang (Many1 AnyDigit)"
      "fp \<in> lang (Opt (Then (Lit (CHR ''.'')) (Many1 AnyDigit)))"
      "ep \<in> lang (Opt (Then (Lit (CHR ''e'')) (Many1 AnyDigit)))"
    unfolding reNumber_def lang.simps(6) by blast
  from w(3) have "fp = [] \<or> (\<exists>f. fp = CHR ''.'' # f \<and> digits_text f)"
    unfolding lang_Opt lang.simps(6) using lang_digits by auto
  moreover from w(4) have "ep = [] \<or> (\<exists>x. ep = CHR ''e'' # x \<and> digits_text x)"
    unfolding lang_Opt lang.simps(6) using lang_digits by auto
  ultimately show "number_text w"
    using w(1,2) unfolding number_text_def lang_digits by blast
next
  assume "number_text w"
  then obtain ip fp ep where w: "w = ip @ fp @ ep" "digits_text ip"
      "fp = [] \<or> (\<exists>f. fp = CHR ''.'' # f \<and> digits_text f)"
      "ep = [] \<or> (\<exists>x. ep = CHR ''e'' # x \<and> digits_text x)"
    unfolding number_text_def by blast
  from w(3) have "fp \<in> lang (Opt (Then (Lit (CHR ''.'')) (Many1 AnyDigit)))"
    unfolding lang_Opt lang.simps(6) using lang_digits by auto
  moreover from w(4) have "ep \<in> lang (Opt (Then (Lit (CHR ''e'')) (Many1 AnyDigit)))"
    unfolding lang_Opt lang.simps(6) using lang_digits by auto
  moreover from w(2) have "ip \<in> lang (Many1 AnyDigit)" by (simp add: lang_digits)
  ultimately show "w \<in> lang reNumber"
    using w(1) unfolding reNumber_def lang.simps(6) by blast
qed

lemma lang_reK8sResource: "s \<in> lang reK8sResource \<longleftrightarrow> is_resource_string s"
  unfolding reK8sResource_def lang.simps(6) lang_Opt is_resource_string_def unit_text_def
  using lang_reNumber lang_reUnit by auto

lemma matches_reK8sResource: "matches reK8sResource s \<longleftrightarrow> is_resource_string s"
  by (simp add: matches_iff_lang lang_reK8sResource)


subsection \<open>The two groups of a match\<close>

lemma match_from_Suc:
  "match_from s (Suc i) =
     (if split_ok s (Suc i)
      then Some (take (Suc i) s,
                 if drop (Suc i) s = [] then None else unitOfString (drop (Suc i) s))
      else match_from s i)"
  unfolding match_from.simps Let_def split_ok_def matches_iff_lang lang_reNumber lang_reUnit
    unit_text_def
  by auto

lemma match_from_None:
  "match_from s i = None \<longleftrightarrow> (\<forall>j. 0 < j \<and> j \<le> i \<longrightarrow> \<not> split_ok s j)"
proof (induction i)
  case 0
  show ?case by simp
next
  case (Suc i)
  have step: "(\<forall>j. 0 < j \<and> j \<le> Suc i \<longrightarrow> \<not> split_ok s j) \<longleftrightarrow>
      \<not> split_ok s (Suc i) \<and> (\<forall>j. 0 < j \<and> j \<le> i \<longrightarrow> \<not> split_ok s j)"
    by (metis le_Suc_eq zero_less_Suc)
  show ?case
    unfolding step match_from_Suc using Suc by simp
qed

lemma match_from_Some:
  "match_from s i = Some (np, u) \<Longrightarrow> \<exists>j. 0 < j \<and> j \<le> i \<and> np = take j s \<and> split_ok s j"
proof (induction i)
  case 0
  then show ?case by simp
next
  case (Suc i)
  show ?case
  proof (cases "split_ok s (Suc i)")
    case True
    with Suc.prems have "np = take (Suc i) s"
      unfolding match_from_Suc by simp
    with True show ?thesis by blast
  next
    case False
    with Suc.prems have "match_from s i = Some (np, u)"
      unfolding match_from_Suc by simp
    from Suc.IH [OF this] obtain j where "0 < j" "j \<le> i" "np = take j s" "split_ok s j"
      by blast
    then have "0 < j \<and> j \<le> Suc i \<and> np = take j s \<and> split_ok s j" by simp
    then show ?thesis by blast
  qed
qed

lemma number_text_nonempty: "number_text w \<Longrightarrow> w \<noteq> []"
  by (auto simp: number_text_def digits_text_def)

lemma is_resource_string_split:
  "is_resource_string s \<longleftrightarrow> (\<exists>j. 0 < j \<and> j \<le> length s \<and> split_ok s j)"
proof
  assume "is_resource_string s"
  then obtain np up where "s = np @ up" "number_text np" "unit_text up"
    unfolding is_resource_string_def by blast
  then have "0 < length np \<and> length np \<le> length s \<and> split_ok s (length np)"
    using number_text_nonempty by (auto simp: split_ok_def)
  then show "\<exists>j. 0 < j \<and> j \<le> length s \<and> split_ok s j" by blast
next
  assume "\<exists>j. 0 < j \<and> j \<le> length s \<and> split_ok s j"
  then obtain j where "split_ok s j" by blast
  then have "s = take j s @ drop j s \<and> number_text (take j s) \<and> unit_text (drop j s)"
    by (simp add: split_ok_def)
  then show "is_resource_string s"
    unfolding is_resource_string_def by blast
qed

lemma match_None_iff: "match_reK8sResource s = None \<longleftrightarrow> \<not> is_resource_string s"
  by (auto simp add: match_reK8sResource_def match_from_None is_resource_string_split)

lemma number_text_numchars: "number_text w \<Longrightarrow> \<forall>c \<in> set w. numchar c"
  by (auto simp: number_text_def digits_text_def numchar_def)

lemma unit_text_start: "unit_text w \<Longrightarrow> w = [] \<or> \<not> numchar (hd w)"
  by (auto simp: unit_text_def unit_tokens_def numchar_def isDigit_def)

lemma split_unique:
  assumes "s = np @ up" "number_text np" "unit_text up"
  shows "np = takeWhile numchar s"
proof (cases up)
  case Nil
  with assms(1) number_text_numchars [OF assms(2)] show ?thesis
    by (simp add: takeWhile_eq_all_conv [THEN iffD2])
next
  case (Cons c cs)
  with unit_text_start [OF assms(3)] have "\<not> numchar c" by simp
  with Cons assms(1) number_text_numchars [OF assms(2)] show ?thesis
    by (simp add: takeWhile_tail)
qed

lemma match_Some:
  assumes "match_reK8sResource s = Some (np, u)"
  shows "\<exists>up. s = np @ up \<and> number_text np \<and> unit_text up"
proof -
  from match_from_Some [OF assms [unfolded match_reK8sResource_def]]
  obtain j where "np = take j s" "split_ok s j" by blast
  then have "s = np @ drop j s \<and> number_text np \<and> unit_text (drop j s)"
    by (simp add: split_ok_def)
  then show ?thesis by blast
qed


lemma parseResource_error_cases:
  "parseResource s = Inl FormatError \<longleftrightarrow>
     \<not> is_resource_string s
     \<or> (\<exists>np up. s = np @ up \<and> number_text np \<and> unit_text up \<and> \<not> isFinite (parseFloat np))"
proof (cases "match_reK8sResource s")
  case None
  then show ?thesis
    using match_None_iff [of s] by (simp add: parseResource_def)
next
  case (Some m)
  obtain np u where m: "m = (np, u)" by (cases m)
  from Some m match_Some obtain up where up: "s = np @ up" "number_text np" "unit_text up"
    by blast
  have grammar: "is_resource_string s"
    using Some match_None_iff [of s] by simp
  have uniq: "np' = np" if "s = np' @ up'" "number_text np'" "unit_text up'" for np' up'
    using split_unique [OF that] split_unique [OF up] by simp
  have "parseResource s = Inl FormatError \<longleftrightarrow> \<not> isFinite (parseFloat np)"
    using Some m by (simp add: parseResource_def Let_def)
  also have "\<dots> \<longleftrightarrow> (\<exists>np' up'. s = np' @ up' \<and> number_text np' \<and> unit_text up'
      \<and> \<not> isFinite (parseFloat np'))"
    using up uniq by blast
  finally show ?thesis using grammar by simp
qed

lemma parseResource_no_RangeError: "parseResource s \<noteq> Inl RangeError"
  by (simp add: parseResource_def Let_def split: option.splits prod.splits)

lemma parse_500m: "parseResource ''500m'' = Inr \<lparr>number = Fin 500, unit = Some U_m\<rparr>"
  by (simp add: parseResource_def re_ev pf_ev r64_ev)

text \<open>
  Claim C6. \<^verbatim>\<open>parseResource\<close> raises its error exactly when the string does not fully
  match the grammar, and returns nothing partial then; \<^verbatim>\<open>invalid\<close>, \<^verbatim>\<open>1.2.3\<close> and \<^verbatim>\<open>5Xi\<close>
  fail.

  The string \<^verbatim>\<open>1e309\<close> matches the grammar, and the parser still raises: the decimal is
  beyond the largest number, \<^verbatim>\<open>parseFloat\<close> answers \<^verbatim>\<open>Infinity\<close>, and the guard
  \<^verbatim>\<open>Number.isFinite\<close> rejects it.
\<close>

theorem overflowing_literal_fails:
  "is_resource_string ''1e309'' \<and> parseResource ''1e309'' = Inl FormatError"
  unfolding matches_reK8sResource [symmetric]
  by (simp add: reK8sResource_def parseResource_def re_ev pf_ev r64_ev)

text \<open>
  Claim C6, amended. \<^verbatim>\<open>parseResource\<close> raises its error exactly when the string does
  not match the grammar or matches it with a number part whose value is not finite;
  it raises no other error, a result on success is the whole record, and the three
  strings of the claim fail.
\<close>

theorem parseResource_fails_iff:
  "(parseResource s = Inl FormatError \<longleftrightarrow>
      \<not> is_resource_string s
      \<or> (\<exists>np up. s = np @ up \<and> number_text np \<and> unit_text up
            \<and> \<not> isFinite (parseFloat np)))
   \<and> parseResource s \<noteq> Inl RangeError
   \<and> parseResource ''invalid'' = Inl FormatError
   \<and> parseResource ''1.2.3'' = Inl FormatError
   \<and> parseResource ''5Xi'' = Inl FormatError"
proof -
  have "parseResource ''invalid'' = Inl FormatError"
    "parseResource ''1.2.3'' = Inl FormatError"
    "parseResource ''5Xi'' = Inl FormatError"
    by (simp_all add: parseResource_def re_ev)
  then show ?thesis
    using parseResource_error_cases [of s] parseResource_no_RangeError [of s] by blast
qed

theorem parseResource_fails_iff_witness:
  "is_resource_string ''500m''
   \<and> parseResource ''500m'' = Inr \<lparr>number = Fin 500, unit = Some U_m\<rparr>"
  using parseResource_fails_iff [of "''500m''"] parse_500m by simp

section \<open>Zero\<close>

lemma toBase_zero:
  "parsedResourceToBaseUnit \<lparr>number = Fin 0, unit = u\<rparr> =
     Inr (if u \<in> {Some U_E, Some U_Pi, Some U_Ei} then Big 0 else Num (Fin 0))"
proof (cases u)
  case None
  then show ?thesis
    by (simp add: parsedResourceToBaseUnit_def MAX_SAFE_INTEGER_def num_le_def num_ge_def)
next
  case (Some v)
  then show ?thesis
    by (cases v)
      (simp_all add: parsedResourceToBaseUnit_def bigint_div_def MAX_SAFE_INTEGER_def
        num_le_def num_ge_def)
qed

text \<open>
  Claim C7. For every unit, \<^verbatim>\<open>parsedResourceToBaseUnit\<close> of mantissa 0 is the number 0;
  \<^verbatim>\<open>scaleBaseUnitCpu\<close> without unit answers a zero base value with 0 and no unit, so that
  \<^verbatim>\<open>formatBaseUnitCpu(0)\<close> is \<^verbatim>\<open>"0"\<close>; \<^verbatim>\<open>scaleBaseUnitMemory\<close> has no such shortcut and falls
  through to the empty unit.

  With the unit \<^verbatim>\<open>E\<close> the base value of mantissa 0 is the BigInt 0, not the number 0: the
  branch for a BigInt multiplier returns a BigInt whatever the mantissa.
\<close>

theorem zero_exa_is_bigint:
  "parsedResourceToBaseUnit \<lparr>number = Fin 0, unit = Some U_E\<rparr> = Inr (Big 0)
   \<and> parsedResourceToBaseUnit \<lparr>number = Fin 0, unit = Some U_E\<rparr> \<noteq> Inr (Num (Fin 0))"
  by (simp add: parsedResourceToBaseUnit_def bigint_div_def)

text \<open>
  Claim C7, amended. The base value of mantissa 0 is zero for every unit: the BigInt 0
  for \<^verbatim>\<open>E\<close>, \<^verbatim>\<open>Pi\<close> and \<^verbatim>\<open>Ei\<close>, the number 0 for every other unit and without unit.
  \<^verbatim>\<open>scaleBaseUnitCpu\<close> without unit answers either zero with the number 0 and no unit,
  and \<^verbatim>\<open>formatBaseUnitCpu(0)\<close> is the formatter's text for 0 with nothing after it;
  \<^verbatim>\<open>scaleBaseUnitMemory\<close> without unit answers either zero with the number 0 and the
  empty unit.
\<close>

theorem zero_handling:
  assumes "fmt (Fin 0) = ''0''"
  shows "parsedResourceToBaseUnit \<lparr>number = Fin 0, unit = u\<rparr> =
           Inr (if u \<in> {Some U_E, Some U_Pi, Some U_Ei} then Big 0 else Num (Fin 0))
    \<and> scaleBaseUnitCpu (Num (Fin 0)) None = Inr \<lparr>number = Fin 0, unit = None\<rparr>
    \<and> scaleBaseUnitCpu (Big 0) None = Inr \<lparr>number = Fin 0, unit = None\<rparr>
    \<and> formatBaseUnitCpu fmt (Num (Fin 0)) None = Inr ''0''
    \<and> scaleBaseUnitMemory (Num (Fin 0)) None = Inr \<lparr>number = Fin 0, unit = Some U_none\<rparr>
    \<and> scaleBaseUnitMemory (Big 0) None = Inr \<lparr>number = Fin 0, unit = Some U_none\<rparr>"
  using assms
  by (simp add: toBase_zero formatBaseUnitCpu_def formatParsedResource_def scale_ev)

theorem zero_handling_witness:
  "numberToString (Fin 0) = ''0''
   \<and> parsedResourceToBaseUnit \<lparr>number = Fin 0, unit = Some U_Ki\<rparr> = Inr (Num (Fin 0))
   \<and> parsedResourceToBaseUnit \<lparr>number = Fin 0, unit = Some U_Pi\<rparr> = Inr (Big 0)
   \<and> formatBaseUnitCpu numberToString (Num (Fin 0)) None = Inr ''0''"
  using zero_handling [of numberToString "Some U_Ki"]
    zero_handling [of numberToString "Some U_Pi"]
  by simp

section \<open>Adding a BigInt and a number\<close>

text \<open>
  Claim C8. \<^verbatim>\<open>add\<close> goes to BigInt arithmetic whenever either operand is a BigInt and
  gives the exact sum; otherwise it adds in floating arithmetic, so \<open>add(1.5, 2.5)\<close> is
  the number 4.

  With the BigInt 1 and the number 0.5 there is no sum: the conversion of 0.5 with
  \<^verbatim>\<open>BigInt\<close> raises \<^verbatim>\<open>RangeError\<close>.
\<close>

theorem add_bigint_fraction_raises:
  "add (Big 1) (Num (Fin (1 / 2))) = Inl RangeError"
  by (simp add: add_def)

text \<open>
  Claim C8, amended. When either operand is a BigInt and the other is a BigInt or a
  number with an integer value, \<^verbatim>\<open>add\<close> returns the exact sum as a BigInt; two numbers
  are added in floating arithmetic, and \<open>add(1.5, 2.5)\<close> is the number 4.
\<close>

theorem add_promotes_for_integers:
  "add (Big x) (Big y) = Inr (Big (x + y))
   \<and> add (Big x) (Num (Fin (of_int n))) = Inr (Big (x + n))
   \<and> add (Num (Fin (of_int n))) (Big y) = Inr (Big (n + y))
   \<and> add (Num a) (Num b) = Inr (Num (fadd a b))
   \<and> add (Num (Fin (3 / 2))) (Num (Fin (5 / 2))) = Inr (Num (Fin 4))"
  by (simp add: add_def r64_ev)

section \<open>Rounding: error bound\<close>













section \<open>Round trip through the base unit\<close>





section \<open>BigInt base values\<close>





lemma bigint_div_one [simp]: "bigint_div a 1 = Inr a"
  by (simp add: bigint_div_def mult_sgn_abs)








section \<open>The text of an integer has no decimal point\<close>


















section \<open>Round trip: the claim\<close>





text \<open>
  Below \<open>2\<^sup>-\<^sup>1\<^sup>0\<^sup>0\<^sup>2\<close> the product of mantissa and multiplier can leave the normal range, where
  the rounding error is absolute: the least positive number \<open>2\<^sup>-\<^sup>1\<^sup>0\<^sup>7\<^sup>4\<close> with unit \<^verbatim>\<open>u\<close> has
  the base value 0, and comes back as 0.
\<close>

lemma tiny_mantissa_is_lost:
  "parsedResourceToBaseUnit \<lparr>number = Fin (1 / 2 ^ 1074), unit = Some U_u\<rparr> = Inr (Num (Fin 0))
   \<and> scaleBaseUnitCpu (Num (Fin 0)) (Some U_u) = Inr \<lparr>number = Fin 0, unit = Some U_u\<rparr>"
  by (simp add: parsedResourceToBaseUnit_def MAX_SAFE_INTEGER_def num_le_def scale_ev r64_ev)








end
